theory Spec2Isabelle
  imports Main
begin

unbundle bit_operations_syntax

section \<open>The Python builtins used by \<open>tk_tools/widgets.py\<close>\<close>

text \<open>
  Python integers are unbounded and their bitwise operators work on the infinite two's
  complement representation, which is how \<open>AND\<close>, \<open>OR\<close>, \<open>XOR\<close> and \<open>NOT\<close> behave on
  \<open>int\<close>. The memory of the interpreter, which bounds the integers it can build, is
  not modelled. Exceptions are values of \<open>exc\<close>; a computation that may raise returns
  \<open>exc + 'a\<close> with \<open>Inl\<close> for the exception.
\<close>

datatype exc =
    TypeError | TypeErrorSubclass string
  | ValueError string | IndexError
  | OverflowError string | MemoryError
  | OtherException string


datatype pyval = PyNone | PyInt int | PyStr string

text \<open>
  \<open>a << n\<close> where the interpreter has the room for the result: a negative shift count
  raises \<open>ValueError\<close>, and every other count gives the shifted integer.
\<close>

definition lshift :: "int \<Rightarrow> int \<Rightarrow> exc + int" where
  "lshift a n =
     (if n < 0 then Inl (ValueError ''negative shift count'')
      else Inr (push_bit (nat n) a))"

text \<open>
  \<open>a << n\<close> with the limits of the interpreter, which depend on the machine and are
  parameters here. After the test of the sign, and for \<open>a\<close> other than 0, a count above
  \<open>digit_limit\<close> raises \<open>OverflowError\<close> (the result would have more digits than an
  integer may have), and a count above \<open>memory_limit\<close>, the largest count at which the
  interpreter finds the memory that the operation needs, raises \<open>MemoryError\<close>.
\<close>

record interpreter =
  digit_limit :: nat
  memory_limit :: nat

definition lshift_within :: "interpreter \<Rightarrow> int \<Rightarrow> int \<Rightarrow> exc + int" where
  "lshift_within I a n =
     (if n < 0 then Inl (ValueError ''negative shift count'')
      else if a = 0 then Inr 0
      else if int (digit_limit I) < n then Inl (OverflowError ''too many digits in integer'')
      else if int (memory_limit I) < n then Inl MemoryError
      else Inr (push_bit (nat n) a))"

text \<open>The digits of a natural number in base 2, most significant first; \<open>0\<close> is \<open>''0''\<close>.\<close>

definition bit_char :: "nat \<Rightarrow> char" where
  "bit_char d = (if d = 0 then CHR ''0'' else CHR ''1'')"

fun bin_digits :: "nat \<Rightarrow> string" where
  "bin_digits n =
     (if n < 2 then [bit_char n] else bin_digits (n div 2) @ [bit_char (n mod 2)])"

declare bin_digits.simps [simp del]

text \<open>\<open>bin(v)\<close>: a sign for a negative number, then \<open>0b\<close>, then the digits of \<open>|v|\<close>.\<close>

definition bin :: "int \<Rightarrow> string" where
  "bin v =
     (if v < 0 then ''-0b'' @ bin_digits (nat (- v)) else ''0b'' @ bin_digits (nat v))"

text \<open>\<open>s[start:]\<close>: a negative start counts from the end, and both ends are clipped.\<close>

definition slice_from :: "string \<Rightarrow> int \<Rightarrow> string" where
  "slice_from s start =
     (let n = int (length s);
          i = (if start < 0 then max (n + start) 0 else min start n)
      in drop (nat i) s)"

text \<open>
  \<open>s.zfill(width)\<close>: zeros are inserted on the left up to \<open>width\<close> characters, after a
  leading sign if there is one; a string that is long enough is returned as it is.
\<close>

definition zfill :: "string \<Rightarrow> int \<Rightarrow> string" where
  "zfill s width =
     (if width \<le> int (length s) then s
      else
        let fill = replicate (nat (width - int (length s))) (CHR ''0'')
        in case s of
             [] \<Rightarrow> fill
           | c # rest \<Rightarrow>
               if c = CHR ''+'' \<or> c = CHR ''-'' then c # fill @ rest else fill @ s)"

section \<open>\<open>BinaryLabel\<close> and \<open>ByteLabel\<close>\<close>

text \<open>
  \<open>ByteLabel\<close> is a subclass of \<open>BinaryLabel\<close> with an empty body, so one record models
  both; \<open>cls\<close> is \<open>type(self)\<close>. The fields are \<open>_value\<close>, \<open>_prefix\<close>, \<open>_bit_width\<close>,
  \<open>_truncation_warning\<close>, and \<open>label_text\<close> for the \<open>text\<close> option of the label.
  \<open>logged\<close> holds the messages that the widget has passed to \<open>logger.warning\<close>,
  oldest first.
\<close>

datatype label_class = BinaryLabel | ByteLabel

fun class_name :: "label_class \<Rightarrow> string" where
  "class_name BinaryLabel = ''BinaryLabel''"
| "class_name ByteLabel = ''ByteLabel''"

record binary_label =
  cls :: label_class
  "value" :: int
  prefix :: string
  bit_width :: int
  truncation_warning :: bool
  label_text :: string
  logged :: "string list"

definition warning_message :: "label_class \<Rightarrow> string" where
  "warning_message c =
     class_name c @
     '': Displayed value is truncated on left side due to insufficient bit width.''"

definition check_width :: "binary_label \<Rightarrow> binary_label" where
  "check_width s =
     (if truncation_warning s \<and> bit_width s < int (length (slice_from (bin (value s)) 2))
      then s\<lparr>logged := logged s @ [warning_message (cls s)]\<rparr>
      else s)"

definition text_update :: "binary_label \<Rightarrow> binary_label" where
  "text_update s =
     s\<lparr>label_text :=
         prefix s @
         slice_from (zfill (slice_from (bin (value s)) 2) (bit_width s)) (- bit_width s)\<rparr>"

text \<open>
  \<open>__init__\<close>; the label is created by the toolkit with an empty text, and the logger
  has received nothing from the new widget yet.
\<close>

definition init :: "label_class \<Rightarrow> int \<Rightarrow> string \<Rightarrow> int \<Rightarrow> bool \<Rightarrow> binary_label" where
  "init c v p w tw =
     text_update (check_width
       \<lparr>cls = c, value = v, prefix = p, bit_width = w, truncation_warning = tw,
        label_text = '''', logged = []\<rparr>)"

definition get :: "binary_label \<Rightarrow> int" where
  "get s = value s"

definition set_value :: "binary_label \<Rightarrow> int \<Rightarrow> binary_label" where
  "set_value s v = text_update (check_width (s\<lparr>value := v\<rparr>))"

definition get_bit :: "binary_label \<Rightarrow> int \<Rightarrow> exc + int" where
  "get_bit s position =
     (case lshift 1 position of
        Inl e \<Rightarrow> Inl e
      | Inr m \<Rightarrow> Inr (value s AND m))"

definition toggle_bit :: "binary_label \<Rightarrow> int \<Rightarrow> exc + binary_label" where
  "toggle_bit s position =
     (case lshift 1 position of
        Inl e \<Rightarrow> Inl e
      | Inr m \<Rightarrow> Inr (text_update (s\<lparr>value := value s XOR m\<rparr>)))"

definition set_bit :: "binary_label \<Rightarrow> int \<Rightarrow> exc + binary_label" where
  "set_bit s position =
     (case lshift 1 position of
        Inl e \<Rightarrow> Inl e
      | Inr m \<Rightarrow> Inr (text_update (s\<lparr>value := value s OR m\<rparr>)))"

definition clear_bit :: "binary_label \<Rightarrow> int \<Rightarrow> exc + binary_label" where
  "clear_bit s position =
     (case lshift 1 position of
        Inl e \<Rightarrow> Inl e
      | Inr m \<Rightarrow> Inr (text_update (s\<lparr>value := value s AND NOT m\<rparr>)))"

text \<open>The four bit operations again, on an interpreter with its limits.\<close>

definition get_bit_within :: "interpreter \<Rightarrow> binary_label \<Rightarrow> int \<Rightarrow> exc + int" where
  "get_bit_within I s position =
     (case lshift_within I 1 position of
        Inl e \<Rightarrow> Inl e
      | Inr m \<Rightarrow> Inr (value s AND m))"

definition toggle_bit_within :: "interpreter \<Rightarrow> binary_label \<Rightarrow> int \<Rightarrow> exc + binary_label" where
  "toggle_bit_within I s position =
     (case lshift_within I 1 position of
        Inl e \<Rightarrow> Inl e
      | Inr m \<Rightarrow> Inr (text_update (s\<lparr>value := value s XOR m\<rparr>)))"

definition set_bit_within :: "interpreter \<Rightarrow> binary_label \<Rightarrow> int \<Rightarrow> exc + binary_label" where
  "set_bit_within I s position =
     (case lshift_within I 1 position of
        Inl e \<Rightarrow> Inl e
      | Inr m \<Rightarrow> Inr (text_update (s\<lparr>value := value s OR m\<rparr>)))"

definition clear_bit_within :: "interpreter \<Rightarrow> binary_label \<Rightarrow> int \<Rightarrow> exc + binary_label" where
  "clear_bit_within I s position =
     (case lshift_within I 1 position of
        Inl e \<Rightarrow> Inl e
      | Inr m \<Rightarrow> Inr (text_update (s\<lparr>value := value s AND NOT m\<rparr>)))"

text \<open>
  The wrappers. \<open>get_msb\<close> and \<open>get_lsb\<close> call \<open>get_bit\<close> in a statement of its own and
  have no \<open>return\<close>, so what they give back is \<open>None\<close>; the other wrappers return
  \<open>None\<close> as the methods they call do.
\<close>

definition get_msb :: "binary_label \<Rightarrow> exc + pyval" where
  "get_msb s =
     (case get_bit s (bit_width s - 1) of
        Inl e \<Rightarrow> Inl e
      | Inr b \<Rightarrow> Inr PyNone)"

definition toggle_msb :: "binary_label \<Rightarrow> exc + binary_label" where
  "toggle_msb s = toggle_bit s (bit_width s - 1)"

definition get_lsb :: "binary_label \<Rightarrow> exc + pyval" where
  "get_lsb s =
     (case get_bit s 0 of
        Inl e \<Rightarrow> Inl e
      | Inr b \<Rightarrow> Inr PyNone)"

definition set_msb :: "binary_label \<Rightarrow> exc + binary_label" where
  "set_msb s = set_bit s (bit_width s - 1)"

definition clear_msb :: "binary_label \<Rightarrow> exc + binary_label" where
  "clear_msb s = clear_bit s (bit_width s - 1)"

definition toggle_lsb :: "binary_label \<Rightarrow> exc + binary_label" where
  "toggle_lsb s = toggle_bit s 0"

definition set_lsb :: "binary_label \<Rightarrow> exc + binary_label" where
  "set_lsb s = set_bit s 0"

definition clear_lsb :: "binary_label \<Rightarrow> exc + binary_label" where
  "clear_lsb s = clear_bit s 0"

text \<open>
  A method call on a label: the method with its arguments, and what the call gives back,
  which is the exception, or the returned value with the widget after the call.
\<close>

datatype invocation =
    Get | Set int
  | Get_bit int | Toggle_bit int | Set_bit int | Clear_bit int
  | Get_msb | Toggle_msb | Get_lsb | Set_msb | Clear_msb
  | Toggle_lsb | Set_lsb | Clear_lsb

definition returning :: "binary_label \<Rightarrow> exc + pyval \<Rightarrow> exc + pyval \<times> binary_label" where
  "returning s r = (case r of Inl e \<Rightarrow> Inl e | Inr v \<Rightarrow> Inr (v, s))"

definition mutating :: "exc + binary_label \<Rightarrow> exc + pyval \<times> binary_label" where
  "mutating r = (case r of Inl e \<Rightarrow> Inl e | Inr s \<Rightarrow> Inr (PyNone, s))"

fun call :: "binary_label \<Rightarrow> invocation \<Rightarrow> exc + pyval \<times> binary_label" where
  "call s Get = Inr (PyInt (get s), s)"
| "call s (Set v) = Inr (PyNone, set_value s v)"
| "call s (Get_bit p) = returning s (map_sum id PyInt (get_bit s p))"
| "call s (Toggle_bit p) = mutating (toggle_bit s p)"
| "call s (Set_bit p) = mutating (set_bit s p)"
| "call s (Clear_bit p) = mutating (clear_bit s p)"
| "call s Get_msb = returning s (get_msb s)"
| "call s Toggle_msb = mutating (toggle_msb s)"
| "call s Get_lsb = returning s (get_lsb s)"
| "call s Set_msb = mutating (set_msb s)"
| "call s Clear_msb = mutating (clear_msb s)"
| "call s Toggle_lsb = mutating (toggle_lsb s)"
| "call s Set_lsb = mutating (set_lsb s)"
| "call s Clear_lsb = mutating (clear_lsb s)"

fun is_set :: "invocation \<Rightarrow> bool" where
  "is_set (Set v) = True"
| "is_set m = False"

text \<open>A sequence of calls; an exception that nothing catches ends it.\<close>

fun run :: "binary_label \<Rightarrow> invocation list \<Rightarrow> exc + pyval list \<times> binary_label" where
  "run s [] = Inr ([], s)"
| "run s (m # ms) =
     (case call s m of
        Inl e \<Rightarrow> Inl e
      | Inr (r, s1) \<Rightarrow>
          (case run s1 ms of
             Inl e \<Rightarrow> Inl e
           | Inr (rs, s2) \<Rightarrow> Inr (r # rs, s2)))"

text \<open>The labels a program can hold: a constructed one, and what a call leaves of one.\<close>

inductive reachable :: "binary_label \<Rightarrow> bool" where
  reachable_init: "reachable (init c v p w tw)"
| reachable_call: "reachable s \<Longrightarrow> call s m = Inr (r, s') \<Longrightarrow> reachable s'"

text \<open>
  What a user of the widget observes of it: its fields, the text it shows, and the
  warnings it has logged, each without the class name that starts it.
\<close>

definition observed ::
  "binary_label \<Rightarrow> int \<times> string \<times> int \<times> bool \<times> string \<times> string list" where
  "observed s =
     (value s, prefix s, bit_width s, truncation_warning s, label_text s,
      map (drop (length (class_name (cls s)))) (logged s))"

subsection \<open>The rendering and the width test in the words of the specification\<close>


text \<open>The number of binary digits of the positive representation of a value.\<close>

definition bin_length :: "int \<Rightarrow> nat" where
  "bin_length v = length (bin_digits (nat \<bar>v\<bar>))"

section \<open>The callback adapter of the smart widgets\<close>







section \<open>\<open>SmartOptionMenu\<close>\<close>

text \<open>\<open>xs[i]\<close> on a list: an index below \<open>-len(xs)\<close> or from \<open>len(xs)\<close> on raises.\<close>

definition getitem :: "'a list \<Rightarrow> int \<Rightarrow> exc + 'a" where
  "getitem xs i =
     (if i < - int (length xs) \<or> int (length xs) \<le> i then Inl IndexError
      else Inr (xs ! nat (if i < 0 then i + int (length xs) else i)))"

text \<open>
  The widget's \<open>StringVar\<close> and the options given to \<open>tk.OptionMenu\<close>.
  \<open>initial_value\<close> is \<open>None\<close> or a string, and the conditional expression tests its
  truth value: \<open>None\<close> and the empty string are false. \<open>tk.OptionMenu\<close> needs one
  option at least. The trace of a callback is registered after the variable is set,
  so construction calls nothing.
\<close>

record smart_option_menu =
  var :: string
  option_menu :: "string list"

definition SmartOptionMenu_init :: "string list \<Rightarrow> string option \<Rightarrow> exc + smart_option_menu" where
  "SmartOptionMenu_init options initial_value =
     (case (case initial_value of
              None \<Rightarrow> getitem options 0
            | Some iv \<Rightarrow> if iv \<noteq> [] then Inr iv else getitem options 0) of
        Inl e \<Rightarrow> Inl e
      | Inr v \<Rightarrow>
          if options = [] then Inl TypeError
          else Inr \<lparr>var = v, option_menu = options\<rparr>)"

definition SmartWidget_get :: "smart_option_menu \<Rightarrow> string" where
  "SmartWidget_get w = var w"

section \<open>\<open>SmartSpinBox\<close>\<close>

text \<open>
  The constructor up to the call of the toolkit's constructor: the class of the
  variable that \<open>entry_type\<close> selects, or the \<open>ValueError\<close>.
\<close>

datatype variable_class = StringVar | IntVar | DoubleVar | BooleanVar

definition entry_type_message :: string where
  "entry_type_message =
     ''Entry type must be '' @ [CHR 0x22] @ ''str'' @ [CHR 0x22] @ '', '' @
     [CHR 0x22] @ ''int'' @ [CHR 0x22] @ '', or '' @ [CHR 0x22] @ ''float'' @ [CHR 0x22]"

definition SmartSpinBox_init :: "string \<Rightarrow> exc + variable_class" where
  "SmartSpinBox_init entry_type =
     (if entry_type = ''str'' then Inr StringVar
      else if entry_type = ''int'' then Inr IntVar
      else if entry_type = ''float'' then Inr DoubleVar
      else Inl (ValueError entry_type_message))"

section \<open>Facts about the builtins\<close>


lemma bin_digits_not_Nil: "bin_digits n \<noteq> []"
  by (subst bin_digits.simps) simp

text \<open>The digit string denotes the number, and has no leading zero.\<close>

lemma bin_digits_value:
  "foldl (\<lambda>a c. 2 * a + (if c = CHR ''1'' then 1 else 0)) 0 (bin_digits n) = n"
proof (induction n rule: bin_digits.induct)
  case (1 n)
  show ?case
  proof (cases "n < 2")
    case True
    then have "n = 0 \<or> n = 1" by arith
    then show ?thesis by (subst bin_digits.simps) (auto simp: bit_char_def)
  next
    case False
    have "foldl (\<lambda>a c. 2 * a + (if c = CHR ''1'' then 1 else 0)) 0 (bin_digits (n div 2)) = n div 2"
      using 1 False by simp
    then show ?thesis
      using False by (subst bin_digits.simps) (simp add: bit_char_def, arith)
  qed
qed

lemma bin_digits_leading_one: "0 < n \<Longrightarrow> hd (bin_digits n) = CHR ''1''"
proof (induction n rule: bin_digits.induct)
  case (1 n)
  show ?case
  proof (cases "n < 2")
    case True
    with 1 have "n = 1" by arith
    then show ?thesis by (subst bin_digits.simps) (simp add: bit_char_def)
  next
    case False
    then have "hd (bin_digits (n div 2)) = CHR ''1''" using 1 by simp
    then show ?thesis
      using False bin_digits_not_Nil [of "n div 2"] by (subst bin_digits.simps) simp
  qed
qed



text \<open>
  \<open>bin(v)[2:]\<close> is the digit string for \<open>v \<ge> 0\<close>. For \<open>v < 0\<close> the two characters
  dropped are \<open>-0\<close>, and the \<open>b\<close> stays in front of the digits.
\<close>

lemma slice_bin_nonneg: "0 \<le> v \<Longrightarrow> slice_from (bin v) 2 = bin_digits (nat v)"
  by (simp add: bin_def slice_from_def)

lemma slice_bin_neg: "v < 0 \<Longrightarrow> slice_from (bin v) 2 = CHR ''b'' # bin_digits (nat (- v))"
  by (simp add: bin_def slice_from_def)

lemma slice_bin_length_nonneg: "0 \<le> v \<Longrightarrow> length (slice_from (bin v) 2) = bin_length v"
  by (simp add: slice_bin_nonneg bin_length_def)

lemma slice_bin_length_neg: "v < 0 \<Longrightarrow> length (slice_from (bin v) 2) = Suc (bin_length v)"
  by (simp add: slice_bin_neg bin_length_def)



section \<open>Facts about the label's methods\<close>

lemma value_text_update: "value (text_update s) = value s"
  by (simp add: text_update_def)

lemma value_check_width: "value (check_width s) = value s"
  by (simp add: check_width_def)

lemma logged_text_update: "logged (text_update s) = logged s"
  by (simp add: text_update_def)

lemma logged_check_width:
  "logged (check_width s) =
     logged s @
     (if truncation_warning s \<and> bit_width s < int (length (slice_from (bin (value s)) 2))
      then [warning_message (cls s)] else [])"
  by (simp add: check_width_def)

lemma text_update_twice: "text_update (text_update s) = text_update s"
  by (simp add: text_update_def)

lemma text_update_value_twice:
  "text_update (text_update (s\<lparr>value := a\<rparr>)\<lparr>value := b\<rparr>) = text_update (s\<lparr>value := b\<rparr>)"
  by (simp add: text_update_def)

text \<open>The shift is the only step of a bit operation that can raise.\<close>

lemma lshift_nonneg: "0 \<le> p \<Longrightarrow> lshift 1 p = Inr (push_bit (nat p) 1)"
  by (simp add: lshift_def)

lemma get_bit_eq:
  "get_bit s p =
     (if p < 0 then Inl (ValueError ''negative shift count'')
      else Inr (value s AND push_bit (nat p) 1))"
  by (simp add: get_bit_def lshift_def)

lemma toggle_bit_eq:
  "toggle_bit s p =
     (if p < 0 then Inl (ValueError ''negative shift count'')
      else Inr (text_update (s\<lparr>value := value s XOR push_bit (nat p) 1\<rparr>)))"
  by (simp add: toggle_bit_def lshift_def)

lemma set_bit_eq:
  "set_bit s p =
     (if p < 0 then Inl (ValueError ''negative shift count'')
      else Inr (text_update (s\<lparr>value := value s OR push_bit (nat p) 1\<rparr>)))"
  by (simp add: set_bit_def lshift_def)

lemma clear_bit_eq:
  "clear_bit s p =
     (if p < 0 then Inl (ValueError ''negative shift count'')
      else Inr (text_update (s\<lparr>value := value s AND NOT (push_bit (nat p) 1)\<rparr>)))"
  by (simp add: clear_bit_def lshift_def)

text \<open>
  With the limits of the interpreter the shift of 1 raises below 0 and above a limit,
  and at every position that is not above a limit the bit operations are the ones
  above.
\<close>

lemma lshift_within_one:
  "lshift_within I 1 p =
     (if p < 0 then Inl (ValueError ''negative shift count'')
      else if int (digit_limit I) < p then Inl (OverflowError ''too many digits in integer'')
      else if int (memory_limit I) < p then Inl MemoryError
      else Inr (push_bit (nat p) 1))"
  by (simp add: lshift_within_def)

lemma within_limits_agree:
  assumes "p \<le> int (digit_limit I)" "p \<le> int (memory_limit I)"
  shows "get_bit_within I s p = get_bit s p \<and>
         toggle_bit_within I s p = toggle_bit s p \<and>
         set_bit_within I s p = set_bit s p \<and>
         clear_bit_within I s p = clear_bit s p"
  using assms
  by (simp add: get_bit_within_def toggle_bit_within_def set_bit_within_def
      clear_bit_within_def lshift_within_one get_bit_eq toggle_bit_eq set_bit_eq clear_bit_eq)

text \<open>Two labels written out.\<close>

lemma init_0:
  "init BinaryLabel 0 '''' 8 True =
     \<lparr>cls = BinaryLabel, value = 0, prefix = '''', bit_width = 8,
      truncation_warning = True, label_text = ''00000000'', logged = []\<rparr>"
  by (simp add: init_def check_width_def text_update_def bin_def slice_from_def zfill_def
      bin_digits.simps bit_char_def eval_nat_numeral)

lemma init_255:
  "init BinaryLabel 255 '''' 8 True =
     \<lparr>cls = BinaryLabel, value = 255, prefix = '''', bit_width = 8,
      truncation_warning = True, label_text = ''11111111'', logged = []\<rparr>"
  by (simp add: init_def check_width_def text_update_def bin_def slice_from_def zfill_def
      bin_digits.simps bit_char_def)


subsection \<open>Every label shows the rendering of its value\<close>

text \<open>
  Each method that changes \<open>_value\<close> ends with \<open>_text_update\<close>, and no method changes
  the prefix or the bit width, so rendering a label again leaves it as it is.
\<close>

lemma call_rendered:
  assumes "call s m = Inr (r, s')" "text_update s = s"
  shows "text_update s' = s'"
  using assms
  by (cases m)
    (auto simp: get_def set_value_def returning_def mutating_def text_update_twice
      toggle_bit_def set_bit_def clear_bit_def toggle_msb_def set_msb_def clear_msb_def
      toggle_lsb_def set_lsb_def clear_lsb_def get_msb_def get_lsb_def
      split: sum.splits)

lemma reachable_rendered: "reachable s \<Longrightarrow> text_update s = s"
proof (induction rule: reachable.induct)
  case (reachable_init c v p w tw)
  show ?case by (simp add: init_def text_update_twice)
next
  case (reachable_call s m r s')
  then show ?case by (simp add: call_rendered)
qed


text \<open>
  A bit operation at a position that the shift accepts keeps a value non-negative, so
  the labels with a non-negative value are closed under the bit operations.
\<close>

lemma bit_operations_keep_nonnegative:
  assumes "0 \<le> value s" "\<not> is_set m" "call s m = Inr (r, s')"
  shows "0 \<le> value s'"
  using assms
  by (cases m)
    (auto simp: returning_def mutating_def value_text_update
      toggle_bit_eq set_bit_eq clear_bit_eq toggle_msb_def set_msb_def clear_msb_def
      toggle_lsb_def set_lsb_def clear_lsb_def get_msb_def get_lsb_def
      split: sum.splits if_splits)

subsection \<open>Only construction and \<open>set\<close> log\<close>

lemma call_not_set_logged:
  assumes "\<not> is_set m" "call s m = Inr (r, s')"
  shows "logged s' = logged s"
  using assms
  by (cases m)
    (auto simp: returning_def mutating_def logged_text_update
      toggle_bit_eq set_bit_eq clear_bit_eq toggle_msb_def set_msb_def clear_msb_def
      toggle_lsb_def set_lsb_def clear_lsb_def get_msb_def get_lsb_def
      split: sum.splits if_splits)

subsection \<open>The class shows in the warning only\<close>

lemma drop_class_name:
  "drop (length (class_name c)) (warning_message c) =
     '': Displayed value is truncated on left side due to insufficient bit width.''"
  by (simp add: warning_message_def)

lemma observed_text_update_cong:
  assumes "observed a = observed b"
  shows "observed (text_update (a\<lparr>value := x\<rparr>)) = observed (text_update (b\<lparr>value := x\<rparr>))"
  using assms by (simp add: observed_def text_update_def)

lemma observed_set_value:
  assumes "observed a = observed b"
  shows "observed (set_value a v) = observed (set_value b v)"
  using assms
  by (simp add: observed_def set_value_def text_update_def check_width_def drop_class_name)

lemma observed_init_any:
  "observed (init c v p w tw) =
     (v, p, w, tw, p @ slice_from (zfill (slice_from (bin v) 2) w) (- w),
      if tw \<and> w < int (length (slice_from (bin v) 2))
      then ['': Displayed value is truncated on left side due to insufficient bit width.'']
      else [])"
  by (simp add: observed_def init_def text_update_def check_width_def drop_class_name)

lemma observed_init: "observed (init ByteLabel v p w tw) = observed (init BinaryLabel v p w tw)"
  by (simp only: observed_init_any)

lemma observed_value: "observed a = observed b \<Longrightarrow> value a = value b"
  by (simp add: observed_def)

lemma observed_bit_width: "observed a = observed b \<Longrightarrow> bit_width a = bit_width b"
  by (simp add: observed_def)

lemma call_observed:
  assumes "observed a = observed b"
  shows "map_sum id (map_prod id observed) (call a m) =
         map_sum id (map_prod id observed) (call b m)"
proof -
  note v = observed_value [OF assms]
  note w = observed_bit_width [OF assms]
  note t = observed_text_update_cong [OF assms]
  show ?thesis
  proof (cases m)
    case Get
    then show ?thesis using assms by (simp add: get_def v)
  next
    case (Set x)
    then show ?thesis by (simp add: observed_set_value [OF assms])
  next
    case (Get_bit x)
    then show ?thesis using assms by (simp add: returning_def get_bit_eq v)
  next
    case (Toggle_bit x)
    then show ?thesis by (simp add: mutating_def toggle_bit_eq v t)
  next
    case (Set_bit x)
    then show ?thesis by (simp add: mutating_def set_bit_eq v t)
  next
    case (Clear_bit x)
    then show ?thesis by (simp add: mutating_def clear_bit_eq v t)
  next
    case Get_msb
    then show ?thesis using assms by (simp add: returning_def get_msb_def get_bit_eq w)
  next
    case Toggle_msb
    then show ?thesis by (simp add: mutating_def toggle_msb_def toggle_bit_eq v w t)
  next
    case Get_lsb
    then show ?thesis using assms by (simp add: returning_def get_lsb_def get_bit_eq)
  next
    case Set_msb
    then show ?thesis by (simp add: mutating_def set_msb_def set_bit_eq v w t)
  next
    case Clear_msb
    then show ?thesis by (simp add: mutating_def clear_msb_def clear_bit_eq v w t)
  next
    case Toggle_lsb
    then show ?thesis by (simp add: mutating_def toggle_lsb_def toggle_bit_eq v t)
  next
    case Set_lsb
    then show ?thesis by (simp add: mutating_def set_lsb_def set_bit_eq v t)
  next
    case Clear_lsb
    then show ?thesis by (simp add: mutating_def clear_lsb_def clear_bit_eq v t)
  qed
qed

lemma run_observed:
  "observed a = observed b \<Longrightarrow>
   map_sum id (map_prod id observed) (run a ms) = map_sum id (map_prod id observed) (run b ms)"
proof (induction ms arbitrary: a b)
  case Nil
  then show ?case by simp
next
  case (Cons m ms)
  have c: "map_sum id (map_prod id observed) (call a m) =
           map_sum id (map_prod id observed) (call b m)"
    by (rule call_observed [OF Cons.prems])
  show ?case
  proof (cases "call a m")
    case (Inl e)
    with c have "call b m = Inl e" by (cases "call b m") auto
    with Inl show ?thesis by simp
  next
    case (Inr x)
    obtain r a1 where x: "x = (r, a1)" by (cases x)
    from c Inr x obtain b1 where b: "call b m = Inr (r, b1)" and o: "observed a1 = observed b1"
      by (cases "call b m") auto
    show ?thesis
      using Cons.IH [OF o] Inr x b
      by (cases "run a1 ms"; cases "run b1 ms") auto
  qed
qed


section \<open>The claims about \<open>BinaryLabel\<close>\<close>





text \<open>
  The six wrappers that change the value are the bit operations at position
  \<open>bit_width - 1\<close> and at position 0: same exception, same returned \<open>None\<close>, same label.
\<close>

lemma mutating_wrappers_agree:
  "call s Toggle_msb = call s (Toggle_bit (bit_width s - 1)) \<and>
   call s Set_msb = call s (Set_bit (bit_width s - 1)) \<and>
   call s Clear_msb = call s (Clear_bit (bit_width s - 1)) \<and>
   call s Toggle_lsb = call s (Toggle_bit 0) \<and>
   call s Set_lsb = call s (Set_bit 0) \<and>
   call s Clear_lsb = call s (Clear_bit 0)"
  by (simp add: toggle_msb_def set_msb_def clear_msb_def toggle_lsb_def set_lsb_def
      clear_lsb_def)

text \<open>
  C3. Each wrapper should give what the bit operation gives at position
  \<open>bit_width - 1\<close> or 0. \<open>get_msb\<close> and \<open>get_lsb\<close> do not: on \<open>BinaryLabel(root, 255)\<close>,
  \<open>get_bit(7)\<close> returns 128 and \<open>get_bit(0)\<close> returns 1, while \<open>get_msb()\<close> and
  \<open>get_lsb()\<close> return \<open>None\<close>. The label is the same after all four calls.
\<close>

theorem get_msb_returns_None:
  "call (init BinaryLabel 255 '''' 8 True) Get_msb =
     Inr (PyNone, init BinaryLabel 255 '''' 8 True) \<and>
   call (init BinaryLabel 255 '''' 8 True)
       (Get_bit (bit_width (init BinaryLabel 255 '''' 8 True) - 1)) =
     Inr (PyInt 128, init BinaryLabel 255 '''' 8 True) \<and>
   call (init BinaryLabel 255 '''' 8 True) Get_lsb =
     Inr (PyNone, init BinaryLabel 255 '''' 8 True) \<and>
   call (init BinaryLabel 255 '''' 8 True) (Get_bit 0) =
     Inr (PyInt 1, init BinaryLabel 255 '''' 8 True)"
  unfolding init_255
  by (simp add: returning_def get_msb_def get_lsb_def get_bit_eq)

text \<open>
  C5, for non-negative values. Construction and \<open>set\<close> with a value \<open>v \<ge> 0\<close> log the
  warning once when \<open>truncation_warning\<close> is on and \<open>v\<close> has more binary digits than
  \<open>bit_width\<close>, and log nothing otherwise; the value stored is \<open>v\<close> in both cases. No
  other method logs anything.
\<close>

theorem truncation_warning_iff:
  assumes "0 \<le> v"
  shows
    "logged (init c v p w tw) =
       (if tw \<and> w < int (bin_length v) then [warning_message c] else []) \<and>
     value (init c v p w tw) = v \<and>
     logged (set_value s v) =
       logged s @
       (if truncation_warning s \<and> bit_width s < int (bin_length v)
        then [warning_message (cls s)] else []) \<and>
     value (set_value s v) = v \<and>
     (\<not> is_set m \<longrightarrow> call s m = Inr (r, s') \<longrightarrow> logged s' = logged s)"
proof -
  have a: "logged (init c v p w tw) =
       (if tw \<and> w < int (bin_length v) then [warning_message c] else [])"
    by (simp add: init_def logged_text_update logged_check_width
        slice_bin_length_nonneg [OF assms])
  have b: "value (init c v p w tw) = v"
    by (simp add: init_def value_text_update value_check_width)
  have c: "logged (set_value s v) =
       logged s @
       (if truncation_warning s \<and> bit_width s < int (bin_length v)
        then [warning_message (cls s)] else [])"
    by (simp add: set_value_def logged_text_update logged_check_width
        slice_bin_length_nonneg [OF assms])
  have d: "value (set_value s v) = v"
    by (simp add: set_value_def value_text_update value_check_width)
  show ?thesis
    using a b c d call_not_set_logged [of m s r s'] by simp
qed

text \<open>
  Value 256 has nine digits: construction with it and \<open>set(256)\<close> at bit width 8 log
  one warning each, and \<open>toggle_bit(0)\<close> logs none.
\<close>

theorem truncation_warning_iff_witness:
  "(0::int) \<le> 256 \<and>
   logged (init BinaryLabel 256 '''' 8 True) = [warning_message BinaryLabel] \<and>
   logged (set_value (init BinaryLabel 0 '''' 8 True) 256) = [warning_message BinaryLabel] \<and>
   value (set_value (init BinaryLabel 0 '''' 8 True) 256) = 256 \<and>
   \<not> is_set (Toggle_bit 0) \<and>
   call (init BinaryLabel 0 '''' 8 True) (Toggle_bit 0) =
     Inr (PyNone,
       \<lparr>cls = BinaryLabel, value = 1, prefix = '''', bit_width = 8,
        truncation_warning = True, label_text = ''00000001'', logged = []\<rparr>) \<and>
   logged
     \<lparr>cls = BinaryLabel, value = 1, prefix = '''', bit_width = 8,
      truncation_warning = True, label_text = ''00000001'', logged = []\<rparr> =
   logged (init BinaryLabel 0 '''' 8 True)"
proof -
  let ?s = "init BinaryLabel 0 '''' 8 True"
  let ?t = "\<lparr>cls = BinaryLabel, value = 1, prefix = '''', bit_width = 8,
        truncation_warning = True, label_text = ''00000001'', logged = []\<rparr>"
  have n: "bin_length 256 = 9" by code_simp
  have c: "call ?s (Toggle_bit 0) = Inr (PyNone, ?t)"
    unfolding init_0
    by (simp add: mutating_def toggle_bit_eq text_update_def bin_def slice_from_def zfill_def
        bin_digits.simps bit_char_def eval_nat_numeral)
  have f: "logged ?s = []" "truncation_warning ?s" "bit_width ?s = 8" "cls ?s = BinaryLabel"
    by (simp_all add: init_0)
  show ?thesis
    using truncation_warning_iff [of 256 BinaryLabel "''''" 8 True ?s "Toggle_bit 0" PyNone ?t] c
    by (simp add: n f)
qed

text \<open>
  For a negative value the test of \<open>_check_width\<close> counts the \<open>b\<close> that \<open>bin(v)[2:]\<close>
  keeps (\<open>slice_bin_length_neg\<close>), so the claim without the restriction fails:
  \<open>-128\<close> has eight binary digits, which do not exceed the bit width 8, and \<open>set(-128)\<close>
  logs the warning.
\<close>

theorem warning_for_negative_value:
  "logged (init BinaryLabel 0 '''' 8 True) = [] \<and>
   truncation_warning (init BinaryLabel 0 '''' 8 True) \<and>
   bit_width (init BinaryLabel 0 '''' 8 True) = 8 \<and>
   bin_length (- 128) = 8 \<and>
   logged (set_value (init BinaryLabel 0 '''' 8 True) (- 128)) = [warning_message BinaryLabel]"
  by (simp add: init_def set_value_def check_width_def text_update_def bin_def slice_from_def
      bin_length_def bin_digits.simps bit_char_def)

text \<open>
  C6. After \<open>set(v)\<close>, \<open>get()\<close> returns \<open>v\<close> itself for every integer \<open>v\<close>, whatever the
  bit width is and however many digits of \<open>v\<close> the label shows.
\<close>

theorem get_after_set: "get (set_value s v) = v"
  by (simp add: get_def set_value_def value_text_update value_check_width)

text \<open>
  C9. On a label, \<open>toggle_bit(p)\<close> with \<open>0 \<le> p < bit_width\<close> returns, and a second
  \<open>toggle_bit(p)\<close> gives back the label as it was: the value, the text and every other
  field. In between the value differs from the original in bit \<open>p\<close>.
\<close>

theorem toggle_bit_twice:
  assumes "reachable s" "0 \<le> p" "p < bit_width s"
  shows "\<exists>s1. toggle_bit s p = Inr s1 \<and> toggle_bit s1 p = Inr s \<and>
           value s1 = value s XOR push_bit (nat p) 1"
proof -
  let ?m = "push_bit (nat p) (1::int)"
  let ?s1 = "text_update (s\<lparr>value := value s XOR ?m\<rparr>)"
  have a: "toggle_bit s p = Inr ?s1"
    by (simp add: toggle_bit_def lshift_nonneg [OF assms(2)])
  have v: "value ?s1 XOR ?m = value s"
    by (simp add: text_update_def xor.assoc)
  have "toggle_bit ?s1 p = Inr (text_update (?s1\<lparr>value := value ?s1 XOR ?m\<rparr>))"
    by (simp add: toggle_bit_def lshift_nonneg [OF assms(2)])
  also have "text_update (?s1\<lparr>value := value ?s1 XOR ?m\<rparr>) = text_update (s\<lparr>value := value s\<rparr>)"
    unfolding v by (rule text_update_value_twice)
  also have "\<dots> = s"
    using reachable_rendered [OF assms(1)] by simp
  finally have b: "toggle_bit ?s1 p = Inr s" .
  have "value ?s1 = value s XOR ?m" by (simp add: text_update_def)
  with a b show ?thesis by blast
qed

text \<open>\<open>BinaryLabel(root, 5, prefix="0b")\<close> and position 3: the value is 13 in between.\<close>

theorem toggle_bit_twice_witness:
  "reachable (init BinaryLabel 5 ''0b'' 8 True) \<and> (0::int) \<le> 3 \<and>
   3 < bit_width (init BinaryLabel 5 ''0b'' 8 True) \<and>
   (\<exists>s1. toggle_bit (init BinaryLabel 5 ''0b'' 8 True) 3 = Inr s1 \<and>
      toggle_bit s1 3 = Inr (init BinaryLabel 5 ''0b'' 8 True) \<and> value s1 = 13)"
proof -
  let ?s = "init BinaryLabel 5 ''0b'' 8 True"
  have r: "reachable ?s" by (rule reachable_init)
  have w: "bit_width ?s = 8" by (simp add: init_def check_width_def text_update_def)
  have v: "value ?s = 5" by (simp add: init_def check_width_def text_update_def)
  have x: "(5::int) XOR push_bit (nat 3) 1 = 13" by simp
  have p: "(0::int) \<le> 3" "3 < bit_width ?s" by (simp_all add: w)
  show ?thesis
    using toggle_bit_twice [OF r p] r p by (simp add: v x)
qed

text \<open>
  C10, as the code has it. A \<open>ByteLabel\<close> and a \<open>BinaryLabel\<close> made with the same
  arguments and given the same calls raise the same exception or return the same values,
  and end with the same value, prefix, bit width, warning switch and text, having
  logged warnings at the same calls with the same words after the class name.
\<close>

theorem ByteLabel_observed_as_BinaryLabel:
  "map_sum id (map_prod id observed) (run (init ByteLabel v p w tw) ms) =
   map_sum id (map_prod id observed) (run (init BinaryLabel v p w tw) ms)"
  by (rule run_observed [OF observed_init])

text \<open>
  The two are not the same in everything: the warning starts with \<open>type(self).__name__\<close>,
  so construction with value 256 logs a different message for each class.
\<close>

theorem ByteLabel_warning_names_its_class:
  "logged (init BinaryLabel 256 '''' 8 True) =
     [''BinaryLabel: Displayed value is truncated on left side due to insufficient bit width.''] \<and>
   logged (init ByteLabel 256 '''' 8 True) =
     [''ByteLabel: Displayed value is truncated on left side due to insufficient bit width.'']"
  by (simp add: init_def check_width_def text_update_def bin_def slice_from_def
      bin_digits.simps bit_char_def warning_message_def)

section \<open>The claims about the smart widgets\<close>




text \<open>
  C7, as the code has it. With a non-empty list of options, the value after
  construction is the first option when no initial value is given and also when the
  initial value is the empty string, and it is the initial value when that is a
  non-empty string.
\<close>

theorem SmartOptionMenu_initial_value:
  assumes "options \<noteq> []"
  shows
    "map_sum id SmartWidget_get (SmartOptionMenu_init options None) = Inr (hd options) \<and>
     map_sum id SmartWidget_get (SmartOptionMenu_init options (Some '''')) = Inr (hd options) \<and>
     (iv \<noteq> '''' \<longrightarrow>
        map_sum id SmartWidget_get (SmartOptionMenu_init options (Some iv)) = Inr iv)"
  using assms
  by (cases options) (simp_all add: SmartOptionMenu_init_def getitem_def SmartWidget_get_def)

theorem SmartOptionMenu_initial_value_witness:
  "[''one'', ''two''] \<noteq> [] \<and> ''two'' \<noteq> '''' \<and>
   map_sum id SmartWidget_get (SmartOptionMenu_init [''one'', ''two''] None) = Inr ''one'' \<and>
   map_sum id SmartWidget_get (SmartOptionMenu_init [''one'', ''two''] (Some ''two'')) =
     Inr ''two''"
  using SmartOptionMenu_initial_value [of "[''one'', ''two'']" "''two''"]
  by simp

text \<open>
  The claim that a supplied initial value always becomes the value fails for the empty
  string: the dropdown starts at the first option.
\<close>

theorem empty_initial_value_is_ignored:
  "SmartOptionMenu_init [''one'', ''two''] (Some '''') =
     Inr \<lparr>var = ''one'', option_menu = [''one'', ''two'']\<rparr>"
  by (simp add: SmartOptionMenu_init_def getitem_def)

text \<open>
  C8. The constructor of \<open>SmartSpinBox\<close> raises its \<open>ValueError\<close>, and raises at all,
  exactly when \<open>entry_type\<close> is none of \<open>str\<close>, \<open>int\<close> and \<open>float\<close>; \<open>bool\<close> raises it,
  and each of the three supported values selects its variable class.
\<close>

theorem SmartSpinBox_entry_type:
  "(SmartSpinBox_init entry_type = Inl (ValueError entry_type_message)) =
     (entry_type \<noteq> ''str'' \<and> entry_type \<noteq> ''int'' \<and> entry_type \<noteq> ''float'') \<and>
   (\<exists>e. SmartSpinBox_init entry_type = Inl e) =
     (entry_type \<noteq> ''str'' \<and> entry_type \<noteq> ''int'' \<and> entry_type \<noteq> ''float'') \<and>
   SmartSpinBox_init ''bool'' = Inl (ValueError entry_type_message) \<and>
   SmartSpinBox_init ''str'' = Inr StringVar \<and>
   SmartSpinBox_init ''int'' = Inr IntVar \<and>
   SmartSpinBox_init ''float'' = Inr DoubleVar"
  by (simp add: SmartSpinBox_init_def)

end
